theory Spec2Isabelle
  imports Main
begin

section \<open>Event model (lens.go)\<close>

text \<open>
  \<^verbatim>\<open>type EventType string\<close>: any string is an event type; the package names eleven.
\<close>

type_synonym EventType = string

definition EventVariableRead :: EventType where "EventVariableRead = ''variable_read''"
definition EventVariableWrite :: EventType where "EventVariableWrite = ''variable_write''"
definition EventFunctionCall :: EventType where "EventFunctionCall = ''function_call''"
definition EventFunctionReturn :: EventType where "EventFunctionReturn = ''function_return''"
definition EventMethodCall :: EventType where "EventMethodCall = ''method_call''"
definition EventFieldAccess :: EventType where "EventFieldAccess = ''field_access''"
definition EventSliceOperation :: EventType where "EventSliceOperation = ''slice_operation''"
definition EventMapOperation :: EventType where "EventMapOperation = ''map_operation''"
definition EventChannelOperation :: EventType where "EventChannelOperation = ''channel_operation''"
definition EventError :: EventType where "EventError = ''error''"
definition EventPanic :: EventType where "EventPanic = ''panic''"

text \<open>\<^verbatim>\<open>type Level int\<close>, with the constants numbered by \<^verbatim>\<open>iota\<close>.\<close>

type_synonym Level = int

definition LevelOff :: Level where "LevelOff = 0"
definition LevelError :: Level where "LevelError = 1"
definition LevelWarn :: Level where "LevelWarn = 2"
definition LevelInfo :: Level where "LevelInfo = 3"
definition LevelDebug :: Level where "LevelDebug = 4"
definition LevelTrace :: Level where "LevelTrace = 5"

text \<open>
  The \<^verbatim>\<open>Event\<close> struct, field by field. Values of type \<^verbatim>\<open>interface{}\<close> are opaque to the
  library and are the type parameter \<open>'v\<close>; a nil \<^verbatim>\<open>interface{}\<close> field is \<open>None\<close>, a nil
  slice is the empty list. \<^verbatim>\<open>time.Time\<close> and \<^verbatim>\<open>time.Duration\<close> are nanosecond counts.
\<close>

record 'v Event =
  ID :: string
  TraceID :: string
  Timestamp :: int
  Type :: EventType
  Component :: string
  Function :: string
  Variable :: string
  OldValue :: "'v option"
  NewValue :: "'v option"
  Arguments :: "'v list"
  ReturnValue :: "'v list"
  Error :: string
  Duration :: int
  StackTrace :: "string list"
  Goroutine :: int
  SourceFile :: string
  SourceLine :: int
  SourceFunction :: string
  CallerFile :: string
  CallerLine :: int
  CallerFunction :: string

text \<open>The zero value of the struct: what a composite literal leaves in the fields it omits.\<close>

definition zeroEvent :: "'v Event" where
  "zeroEvent = \<lparr> ID = [], TraceID = [], Timestamp = 0, Type = [], Component = [],
     Function = [], Variable = [], OldValue = None, NewValue = None, Arguments = [],
     ReturnValue = [], Error = [], Duration = 0, StackTrace = [], Goroutine = 0,
     SourceFile = [], SourceLine = 0, SourceFunction = [],
     CallerFile = [], CallerLine = 0, CallerFunction = [] \<rparr>"

section \<open>Filters\<close>

text \<open>
  \<^verbatim>\<open>filepath.Match(pattern, name)\<close> belongs to the Go standard library. The filters keep
  only its first result (\<^verbatim>\<open>matched, _ := filepath.Match(...)\<close>), so a malformed pattern
  counts as no match. The matcher is a parameter of the model.
\<close>

type_synonym Matcher = "string \<Rightarrow> string \<Rightarrow> bool"

text \<open>
  The implementations of the \<^verbatim>\<open>Filter\<close> interface. \<open>PackageFilter\<close> and \<open>FunctionFilter\<close>
  hold \<^verbatim>\<open>includePatterns\<close> then \<^verbatim>\<open>excludePatterns\<close>; \<open>DurationFilter\<close> holds
  \<^verbatim>\<open>minDuration\<close>; \<open>EventTypeFilter\<close> holds the keys of \<^verbatim>\<open>allowedTypes\<close> (the constructor
  stores \<^verbatim>\<open>true\<close> under each); \<open>CompositeFilter\<close> holds \<^verbatim>\<open>filters\<close>. \<open>UserFilter\<close> is any
  other implementation of the interface, given by its \<^verbatim>\<open>ShouldTrace\<close>.
\<close>

datatype 'v Filter =
    PackageFilter "string list" "string list"
  | FunctionFilter "string list" "string list"
  | DurationFilter int
  | EventTypeFilter "EventType list"
  | CompositeFilter "'v Filter list"
  | UserFilter "'v Event \<Rightarrow> bool"

text \<open>
  The loop \<^verbatim>\<open>for _, pattern := range patterns { if matched { return ... } }\<close>: whether the
  loop body returns, scanning the patterns in order.
\<close>

fun anyMatch :: "Matcher \<Rightarrow> string list \<Rightarrow> string \<Rightarrow> bool" where
  "anyMatch M [] s = False"
| "anyMatch M (pattern # patterns) s = (if M pattern s then True else anyMatch M patterns s)"

text \<open>
  \<^verbatim>\<open>ShouldTrace\<close> of each filter, and the loop over a filter list that
  \<^verbatim>\<open>CompositeFilter.ShouldTrace\<close> and \<^verbatim>\<open>TraceEvent\<close> both run: it returns at the first
  filter that rejects.
\<close>

fun ShouldTrace :: "Matcher \<Rightarrow> 'v Filter \<Rightarrow> 'v Event \<Rightarrow> bool"
  and allPass :: "Matcher \<Rightarrow> 'v Filter list \<Rightarrow> 'v Event \<Rightarrow> bool" where
  "ShouldTrace M (PackageFilter includePatterns excludePatterns) event =
     (let component = Component event in
      if component = [] then True
      else if anyMatch M excludePatterns component then False
      else if length includePatterns = 0 then True
      else if anyMatch M includePatterns component then True
      else False)"
| "ShouldTrace M (FunctionFilter includePatterns excludePatterns) event =
     (let function = Function event in
      if function = [] then True
      else if anyMatch M excludePatterns function then False
      else if length includePatterns = 0 then True
      else if anyMatch M includePatterns function then True
      else False)"
| "ShouldTrace M (DurationFilter minDuration) event =
     (if Duration event = 0 then True else Duration event \<ge> minDuration)"
| "ShouldTrace M (EventTypeFilter allowedTypes) event =
     (if allowedTypes = [] then True else Type event \<in> set allowedTypes)"
| "ShouldTrace M (CompositeFilter fs) event = allPass M fs event"
| "ShouldTrace M (UserFilter shouldTrace) event = shouldTrace event"
| "allPass M [] event = True"
| "allPass M (f # fs) event =
     (if \<not> ShouldTrace M f event then False else allPass M fs event)"

text \<open>
  The sub-filters whose \<^verbatim>\<open>ShouldTrace\<close> the same loop calls, in order: it stops after the
  first one that rejects.
\<close>

fun consulted :: "Matcher \<Rightarrow> 'v Filter list \<Rightarrow> 'v Event \<Rightarrow> 'v Filter list" where
  "consulted M [] event = []"
| "consulted M (f # fs) event =
     (if \<not> ShouldTrace M f event then [f] else f # consulted M fs event)"

section \<open>Writers and the configuration of the tracer (tracer.go)\<close>

text \<open>
  The \<^verbatim>\<open>Writer\<close> implementations of the package, by their constructor arguments, and any
  other implementation by an identifying number.
\<close>

datatype Writer = ConsoleWriter bool | JSONFileWriter string | UserWriter nat

text \<open>\<^verbatim>\<open>TracerImpl\<close> without its mutex: the model runs one goroutine.\<close>

record 'v TracerImpl =
  level :: Level
  enabled :: bool
  writers :: "Writer list"
  filters :: "'v Filter list"

section \<open>The runtime the library reads\<close>

text \<open>
  One entry of the call stack, as \<^verbatim>\<open>runtime.Caller\<close> reports it: file, line, and the name
  that \<^verbatim>\<open>runtime.FuncForPC(pc)\<close> gives (\<open>None\<close> when it returns nil).
\<close>

record Frame =
  frameFile :: string
  frameLine :: int
  frameFunc :: "string option"

text \<open>
  The state the library reads and writes while one goroutine runs:
  \<^item> \<open>clock\<close>: what \<^verbatim>\<open>time.Now()\<close> returns next, in nanoseconds; \<open>ticks\<close>: by how much the
    reading advances after each successive read (the environment chooses; \<open>0\<close> when two
    reads fall within the clock's resolution, and no advance once the list is used up);
  \<^item> \<open>stack\<close>: the call stack of the code that calls into the library, innermost frame
    first; \<open>srcDir\<close>: the directory the library's own source files were compiled from;
  \<^item> \<open>numGoroutine\<close>: \<^verbatim>\<open>runtime.NumGoroutine()\<close>;
  \<^item> \<open>tracer\<close>: the \<^verbatim>\<open>TracerImpl\<close> that the receivers \<^verbatim>\<open>t\<close> and \<^verbatim>\<open>s.tracer\<close> point to;
  \<^item> \<open>dispatched\<close>: the events passed to \<^verbatim>\<open>TraceEvent\<close> so far, in call order;
  \<^item> \<open>written\<close>: the \<^verbatim>\<open>w.Write(event)\<close> jobs started so far (each runs in a goroutine of
    its own; the list keeps the order in which they were started).
\<close>

record 'v World =
  clock :: int
  ticks :: "nat list"
  stack :: "Frame list"
  srcDir :: string
  numGoroutine :: int
  tracer :: "'v TracerImpl"
  dispatched :: "'v Event list"
  written :: "(Writer \<times> 'v Event) list"

definition timeNow :: "'v World \<Rightarrow> int \<times> 'v World" where
  "timeNow w =
     (clock w,
      case ticks w of
        [] \<Rightarrow> w
      | d # ds \<Rightarrow> w\<lparr>clock := clock w + int d, ticks := ds\<rparr>)"

definition getGoroutineID :: "'v World \<Rightarrow> int" where
  "getGoroutineID w = numGoroutine w"

subsection \<open>Identifiers\<close>

text \<open>\<^verbatim>\<open>%d\<close> of \<^verbatim>\<open>fmt.Sprintf\<close>: decimal digits, with a minus sign below zero.\<close>

fun showNat :: "nat \<Rightarrow> string" where
  "showNat n =
     (if n < 10 then [''0123456789'' ! n]
      else showNat (n div 10) @ [''0123456789'' ! (n mod 10)])"

declare showNat.simps [simp del]

definition formatInt :: "int \<Rightarrow> string" where
  "formatInt i = (if i < 0 then CHR ''-'' # showNat (nat (- i)) else showNat (nat i))"

definition generateEventID :: "'v World \<Rightarrow> string \<times> 'v World" where
  "generateEventID w = (let (now, w') = timeNow w in (''evt_'' @ formatInt now, w'))"

definition generateTraceID :: "'v World \<Rightarrow> string \<times> 'v World" where
  "generateTraceID w = (let (now, w') = timeNow w in (''trace_'' @ formatInt now, w'))"

subsection \<open>Source locations (lens.go)\<close>

record SourceLocation =
  File :: string
  Line :: int
  LocFunction :: string

definition zeroLocation :: SourceLocation where
  "zeroLocation = \<lparr> File = [], Line = 0, LocFunction = [] \<rparr>"

text \<open>\<^verbatim>\<open>strings.Contains(s, substr)\<close>.\<close>

fun Contains :: "string \<Rightarrow> string \<Rightarrow> bool" where
  "Contains [] substr = (substr = [])"
| "Contains (c # cs) substr = (take (length substr) (c # cs) = substr \<or> Contains cs substr)"

definition isInternalFile :: "string \<Rightarrow> bool" where
  "isInternalFile file =
     (if Contains file ''/usr/local/go/src/'' \<or> Contains file ''/usr/lib/go/src/'' then True
      else if Contains file ''lens.go'' \<or> Contains file ''tracer.go'' then True
      else False)"

definition locationOf :: "Frame \<Rightarrow> SourceLocation" where
  "locationOf fr =
     \<lparr> File = frameFile fr, Line = frameLine fr,
       LocFunction = (case frameFunc fr of None \<Rightarrow> [] | Some fn \<Rightarrow> fn) \<rparr>"

text \<open>
  The loop \<^verbatim>\<open>for i := skip; i < skip+10; i++\<close> of \<^verbatim>\<open>getSourceLocation\<close>, with the number
  of iterations left: it breaks when \<^verbatim>\<open>runtime.Caller(i)\<close> is not ok (no frame \<open>i\<close>), and
  returns the first frame whose file is not internal.
\<close>

fun firstExternal :: "Frame list \<Rightarrow> nat \<Rightarrow> nat \<Rightarrow> SourceLocation option" where
  "firstExternal st i 0 = None"
| "firstExternal st i (Suc n) =
     (if \<not> i < length st then None
      else if \<not> isInternalFile (frameFile (st ! i)) then Some (locationOf (st ! i))
      else firstExternal st (Suc i) n)"

text \<open>
  A frame of the library itself: the file under \<open>srcDir\<close>, the line of the call in
  progress, and the function's name.
\<close>

definition lensFrame :: "'v World \<Rightarrow> string \<Rightarrow> int \<Rightarrow> string \<Rightarrow> Frame" where
  "lensFrame w file ln fn =
     \<lparr> frameFile = srcDir w @ ''/'' @ file, frameLine = ln,
       frameFunc = Some (''github.com/baretech/lens.'' @ fn) \<rparr>"

text \<open>
  \<^verbatim>\<open>getSourceLocation(skip)\<close>, called with \<open>callers\<close> on the stack (innermost first).
  \<^verbatim>\<open>runtime.Caller(0)\<close> is \<^verbatim>\<open>getSourceLocation\<close> itself, at line 148 inside the loop and
  at line 170 for the fallback.
\<close>

definition getSourceLocation :: "'v World \<Rightarrow> Frame list \<Rightarrow> nat \<Rightarrow> SourceLocation" where
  "getSourceLocation w callers skip =
     (case firstExternal (lensFrame w ''lens.go'' 148 ''getSourceLocation'' # callers) skip 10 of
        Some loc \<Rightarrow> loc
      | None \<Rightarrow>
          (let st = lensFrame w ''lens.go'' 170 ''getSourceLocation'' # callers in
           if \<not> skip < length st then zeroLocation else locationOf (st ! skip)))"

definition getCallerLocation :: "'v World \<Rightarrow> Frame list \<Rightarrow> nat \<Rightarrow> SourceLocation" where
  "getCallerLocation w callers skip =
     getSourceLocation w (lensFrame w ''lens.go'' 203 ''getCallerLocation'' # callers) (skip + 1)"

section \<open>Dispatch and the setters (tracer.go)\<close>

text \<open>
  \<^verbatim>\<open>TraceEvent\<close>: nothing when disabled; the filter loop returns at the first rejection;
  otherwise one write job per writer is started.
\<close>

definition TraceEvent :: "Matcher \<Rightarrow> 'v Event \<Rightarrow> 'v World \<Rightarrow> 'v World" where
  "TraceEvent M event w0 =
     (let w = w0\<lparr>dispatched := dispatched w0 @ [event]\<rparr>; t = tracer w in
      if \<not> enabled t then w
      else if \<not> allPass M (filters t) event then w
      else w\<lparr>written := written w @ map (\<lambda>writer. (writer, event)) (writers t)\<rparr>)"

definition SetLevel :: "Level \<Rightarrow> 'v World \<Rightarrow> 'v World" where
  "SetLevel lvl w = w\<lparr>tracer := (tracer w)\<lparr>level := lvl\<rparr>\<rparr>"

definition AddWriter :: "Writer \<Rightarrow> 'v World \<Rightarrow> 'v World" where
  "AddWriter writer w = w\<lparr>tracer := (tracer w)\<lparr>writers := writers (tracer w) @ [writer]\<rparr>\<rparr>"

definition AddFilter :: "'v Filter \<Rightarrow> 'v World \<Rightarrow> 'v World" where
  "AddFilter f w = w\<lparr>tracer := (tracer w)\<lparr>filters := filters (tracer w) @ [f]\<rparr>\<rparr>"

definition Enable :: "'v World \<Rightarrow> 'v World" where
  "Enable w = w\<lparr>tracer := (tracer w)\<lparr>enabled := True\<rparr>\<rparr>"

definition Disable :: "'v World \<Rightarrow> 'v World" where
  "Disable w = w\<lparr>tracer := (tracer w)\<lparr>enabled := False\<rparr>\<rparr>"

text \<open>\<^verbatim>\<open>New\<close> with no options (lens.go).\<close>

definition New :: "'v TracerImpl" where
  "New = \<lparr> level = LevelInfo, enabled = True, writers = [], filters = [] \<rparr>"

section \<open>Wrapping (tracer.go)\<close>

text \<open>
  How a call ends: it returns its results, or it panics with a value that unwinds through
  the caller.
\<close>

datatype 'v Outcome = Returns "'v list" | Panics 'v

text \<open>
  A Go function as the library sees it through \<^verbatim>\<open>reflect\<close>: called with its arguments,
  it runs in the current state and ends in an outcome. \<open>pcName\<close> is the name that
  \<^verbatim>\<open>runtime.FuncForPC(reflect.ValueOf(obj).Pointer())\<close> reports, \<open>None\<close> when that is nil.
\<close>

type_synonym 'v Callable = "'v list \<Rightarrow> 'v World \<Rightarrow> 'v Outcome \<times> 'v World"

record 'v FuncValue =
  call :: "'v Callable"
  pcName :: "string option"

text \<open>
  The kinds of \<^verbatim>\<open>reflect.Kind\<close> that the switch of \<^verbatim>\<open>WrapWithName\<close> sends to its
  \<^verbatim>\<open>default\<close> branch.
\<close>

datatype BasicKind =
    Bool | Int | Int8 | Int16 | Int32 | Int64
  | Uint | Uint8 | Uint16 | Uint32 | Uint64 | Uintptr
  | Float32 | Float64 | Complex64 | Complex128
  | Array | String | UnsafePointer

text \<open>
  An \<^verbatim>\<open>interface{}\<close> operand of \<^verbatim>\<open>Wrap\<close>, by what \<^verbatim>\<open>reflect.TypeOf(obj)\<close> says about it:
  \<^item> \<open>NilInterface\<close>: \<^verbatim>\<open>reflect.TypeOf(obj) == nil\<close>;
  \<^item> \<open>PtrValue isNil methods data\<close>: kind \<^verbatim>\<open>reflect.Ptr\<close>, with \<^verbatim>\<open>IsNil()\<close>, the exported
    methods of the pointer's method set and the data pointed to;
  \<^item> \<open>StructValue methods data\<close>: kind \<^verbatim>\<open>reflect.Struct\<close>;
  \<^item> \<open>FuncObject fv\<close>: kind \<^verbatim>\<open>reflect.Func\<close>;
  \<^item> \<open>InterfaceValue\<close>, \<open>SliceValue\<close>, \<open>MapValue\<close>, \<open>ChanValue\<close>: the kinds of these names;
  \<^item> \<open>BasicValue k data\<close>: any other kind.
\<close>

datatype 'v Object =
    NilInterface
  | PtrValue bool "(string \<times> 'v Callable) list" 'v
  | StructValue "(string \<times> 'v Callable) list" 'v
  | FuncObject "'v FuncValue"
  | InterfaceValue 'v
  | SliceValue 'v
  | MapValue 'v
  | ChanValue 'v
  | BasicValue BasicKind 'v

text \<open>The exported methods of an operand, and a call of one of them by name.\<close>

fun methodsOf :: "'v Object \<Rightarrow> (string \<times> 'v Callable) list" where
  "methodsOf (PtrValue isNil methods d) = methods"
| "methodsOf (StructValue methods d) = methods"
| "methodsOf obj = []"

definition callMethod ::
  "'v Object \<Rightarrow> string \<Rightarrow> 'v list \<Rightarrow> 'v World \<Rightarrow> ('v Outcome \<times> 'v World) option" where
  "callMethod obj methodName args w =
     (case map_of (methodsOf obj) methodName of
        None \<Rightarrow> None
      | Some m \<Rightarrow> Some (m args w))"

text \<open>
  The closure that \<^verbatim>\<open>wrapFunction\<close> hands to \<^verbatim>\<open>reflect.MakeFunc\<close>, in two parts around
  \<^verbatim>\<open>objValue.Call(args)\<close>. \<open>wrapperEnter\<close> is lines 219 to 261: it builds and dispatches the
  call event and reads the start time; it returns the trace id, the function name, the
  start time and the state in which the original is called. The calls inside the
  composite literal run in the order they are written: \<^verbatim>\<open>generateEventID()\<close>,
  \<^verbatim>\<open>time.Now()\<close>, \<^verbatim>\<open>getGoroutineID()\<close>. Every argument that reaches the closure can be
  read through \<^verbatim>\<open>Interface()\<close>, so \<^verbatim>\<open>argInterfaces\<close> is the argument list.
\<close>

definition callEventOf ::
  "string \<Rightarrow> string \<Rightarrow> int \<Rightarrow> string \<Rightarrow> string \<Rightarrow> 'v list \<Rightarrow> int \<Rightarrow>
   SourceLocation \<Rightarrow> SourceLocation \<Rightarrow> 'v Event" where
  "callEventOf eventID traceID now name funcName argInterfaces goroutine
       sourceLocation callerLocation =
     zeroEvent\<lparr> ID := eventID, TraceID := traceID, Timestamp := now,
       Type := EventFunctionCall, Component := name, Function := funcName,
       Arguments := argInterfaces, Goroutine := goroutine,
       SourceFile := File sourceLocation, SourceLine := Line sourceLocation,
       SourceFunction := LocFunction sourceLocation,
       CallerFile := File callerLocation, CallerLine := Line callerLocation,
       CallerFunction := LocFunction callerLocation \<rparr>"

definition returnEventOf ::
  "string \<Rightarrow> string \<Rightarrow> int \<Rightarrow> string \<Rightarrow> string \<Rightarrow> 'v list \<Rightarrow> int \<Rightarrow> int \<Rightarrow>
   SourceLocation \<Rightarrow> SourceLocation \<Rightarrow> 'v Event" where
  "returnEventOf eventID traceID now name funcName resultInterfaces duration goroutine
       sourceLocation callerLocation =
     zeroEvent\<lparr> ID := eventID, TraceID := traceID, Timestamp := now,
       Type := EventFunctionReturn, Component := name, Function := funcName,
       ReturnValue := resultInterfaces, Duration := duration, Goroutine := goroutine,
       SourceFile := File sourceLocation, SourceLine := Line sourceLocation,
       SourceFunction := LocFunction sourceLocation,
       CallerFile := File callerLocation, CallerLine := Line callerLocation,
       CallerFunction := LocFunction callerLocation \<rparr>"

definition wrapperEnter ::
  "Matcher \<Rightarrow> 'v FuncValue \<Rightarrow> string \<Rightarrow> SourceLocation \<Rightarrow> SourceLocation \<Rightarrow>
   'v list \<Rightarrow> 'v World \<Rightarrow> string \<times> string \<times> int \<times> 'v World" where
  "wrapperEnter M obj name wrapSourceLocation wrapCallerLocation args w0 =
     (let funcName = (case pcName obj of None \<Rightarrow> name | Some fn \<Rightarrow> fn);
          argInterfaces = args;
          sourceLocation = wrapSourceLocation;
          callerLocation = wrapCallerLocation;
          (traceID, w1) = generateTraceID w0;
          (eventID, w2) = generateEventID w1;
          (now, w3) = timeNow w2;
          callEvent = callEventOf eventID traceID now name funcName argInterfaces
                        (getGoroutineID w3) sourceLocation callerLocation;
          w4 = TraceEvent M callEvent w3;
          (start, w5) = timeNow w4
      in (traceID, funcName, start, w5))"

text \<open>
  \<open>wrapperLeave\<close> is lines 266 to 295, after the original has returned \<open>results\<close>:
  \<^verbatim>\<open>time.Since(start)\<close> reads the clock, then the return event is built and dispatched.
\<close>

definition wrapperLeave ::
  "Matcher \<Rightarrow> string \<Rightarrow> SourceLocation \<Rightarrow> SourceLocation \<Rightarrow>
   string \<Rightarrow> string \<Rightarrow> int \<Rightarrow> 'v list \<Rightarrow> 'v World \<Rightarrow> 'v World" where
  "wrapperLeave M name wrapSourceLocation wrapCallerLocation traceID funcName start results w6 =
     (let sourceLocation = wrapSourceLocation;
          callerLocation = wrapCallerLocation;
          (after, w7) = timeNow w6;
          duration = after - start;
          resultInterfaces = results;
          (eventID, w8) = generateEventID w7;
          (now, w9) = timeNow w8;
          returnEvent = returnEventOf eventID traceID now name funcName resultInterfaces
                          duration (getGoroutineID w9) sourceLocation callerLocation
      in TraceEvent M returnEvent w9)"

text \<open>
  The whole closure. A panic of the original unwinds through it: nothing after
  \<^verbatim>\<open>objValue.Call(args)\<close> runs, and there is no \<^verbatim>\<open>recover\<close>.
\<close>

definition wrapper ::
  "Matcher \<Rightarrow> 'v FuncValue \<Rightarrow> string \<Rightarrow> SourceLocation \<Rightarrow> SourceLocation \<Rightarrow> 'v Callable" where
  "wrapper M obj name wrapSourceLocation wrapCallerLocation args w0 =
     (let (traceID, funcName, start, w5) =
            wrapperEnter M obj name wrapSourceLocation wrapCallerLocation args w0;
          (outcome, w6) = call obj args w5
      in case outcome of
           Panics v \<Rightarrow> (Panics v, w6)
         | Returns results \<Rightarrow>
             (Returns results,
              wrapperLeave M name wrapSourceLocation wrapCallerLocation
                traceID funcName start results w6))"

text \<open>
  \<^verbatim>\<open>wrapFunction\<close>, called with \<open>callers\<close> on the stack: the two locations are resolved
  here, at lines 214 and 215, and the closure keeps them. The code pointer of a function
  made by \<^verbatim>\<open>reflect.MakeFunc\<close> is that of \<^verbatim>\<open>reflect.makeFuncStub\<close>.
\<close>

definition wrapFunction ::
  "Matcher \<Rightarrow> 'v World \<Rightarrow> Frame list \<Rightarrow> 'v FuncValue \<Rightarrow> string \<Rightarrow> 'v Object" where
  "wrapFunction M w callers obj name =
     (let wrapSourceLocation =
            getSourceLocation w (lensFrame w ''tracer.go'' 214 ''(*TracerImpl).wrapFunction'' # callers) 2;
          wrapCallerLocation =
            getCallerLocation w (lensFrame w ''tracer.go'' 215 ''(*TracerImpl).wrapFunction'' # callers) 2
      in FuncObject \<lparr> call = wrapper M obj name wrapSourceLocation wrapCallerLocation,
                      pcName = Some ''reflect.makeFuncStub'' \<rparr>)"

text \<open>\<^verbatim>\<open>reflect.ValueOf(obj).IsNil()\<close> of a pointer operand.\<close>

fun IsNil :: "'v Object \<Rightarrow> bool" where
  "IsNil (PtrValue isNil methods d) = isNil"
| "IsNil obj = False"

definition wrapPointer :: "'v Object \<Rightarrow> string \<Rightarrow> 'v Object" where
  "wrapPointer obj name = (if IsNil obj then obj else obj)"

definition wrapStruct :: "'v Object \<Rightarrow> string \<Rightarrow> 'v Object" where
  "wrapStruct obj name = obj"

definition wrapInterface :: "'v Object \<Rightarrow> string \<Rightarrow> 'v Object" where
  "wrapInterface obj name = obj"

definition wrapSlice :: "'v Object \<Rightarrow> string \<Rightarrow> 'v Object" where
  "wrapSlice obj name = obj"

definition wrapMap :: "'v Object \<Rightarrow> string \<Rightarrow> 'v Object" where
  "wrapMap obj name = obj"

definition wrapChannel :: "'v Object \<Rightarrow> string \<Rightarrow> 'v Object" where
  "wrapChannel obj name = obj"

text \<open>
  \<^verbatim>\<open>WrapWithName\<close>, called with \<open>callers\<close> on the stack. It returns the value handed back
  and the state it leaves.
\<close>

definition WrapWithNameFrom ::
  "Matcher \<Rightarrow> Frame list \<Rightarrow> 'v Object \<Rightarrow> string \<Rightarrow> 'v World \<Rightarrow> 'v Object \<times> 'v World" where
  "WrapWithNameFrom M callers obj name w =
     (if \<not> enabled (tracer w) then (obj, w)
      else case obj of
        NilInterface \<Rightarrow> (obj, w)
      | PtrValue isNil methods d \<Rightarrow> (wrapPointer obj name, w)
      | StructValue methods d \<Rightarrow> (wrapStruct obj name, w)
      | FuncObject fv \<Rightarrow>
          (wrapFunction M w
             (lensFrame w ''tracer.go'' 44 ''(*TracerImpl).WrapWithName'' # callers) fv name, w)
      | InterfaceValue d \<Rightarrow> (wrapInterface obj name, w)
      | SliceValue d \<Rightarrow> (wrapSlice obj name, w)
      | MapValue d \<Rightarrow> (wrapMap obj name, w)
      | ChanValue d \<Rightarrow> (wrapChannel obj name, w)
      | BasicValue k d \<Rightarrow> (obj, w))"

text \<open>The two entry points, called from the code whose stack is \<open>stack w\<close>.\<close>

definition WrapWithName ::
  "Matcher \<Rightarrow> 'v Object \<Rightarrow> string \<Rightarrow> 'v World \<Rightarrow> 'v Object \<times> 'v World" where
  "WrapWithName M obj name w = WrapWithNameFrom M (stack w) obj name w"

definition Wrap :: "Matcher \<Rightarrow> 'v Object \<Rightarrow> 'v World \<Rightarrow> 'v Object \<times> 'v World" where
  "Wrap M obj w =
     WrapWithNameFrom M (lensFrame w ''tracer.go'' 22 ''(*TracerImpl).Wrap'' # stack w) obj [] w"

text \<open>Whether the dynamic type of an operand is a function type.\<close>

fun isFunc :: "'v Object \<Rightarrow> bool" where
  "isFunc (FuncObject fv) = True"
| "isFunc obj = False"

text \<open>A call of a value that is a function; calling anything else does not compile.\<close>

fun invoke :: "'v Object \<Rightarrow> 'v list \<Rightarrow> 'v World \<Rightarrow> ('v Outcome \<times> 'v World) option" where
  "invoke (FuncObject fv) args w = Some (call fv args w)"
| "invoke obj args w = None"

section \<open>Spans (tracer.go)\<close>

text \<open>
  \<^verbatim>\<open>SpanImpl\<close>. Its \<^verbatim>\<open>tracer\<close> field points to the tracer of the state. \<open>tags\<close> is \<open>None\<close> for
  a nil map; \<open>spanError\<close> holds the text of \<^verbatim>\<open>s.error.Error()\<close>, \<open>None\<close> for a nil error.
\<close>

record 'v SpanImpl =
  spanName :: string
  startTime :: int
  traceID :: string
  tags :: "(string \<rightharpoonup> 'v option) option"
  spanError :: "string option"

definition StartSpan :: "string \<Rightarrow> 'v World \<Rightarrow> 'v SpanImpl \<times> 'v World" where
  "StartSpan name w0 =
     (let (now, w1) = timeNow w0;
          (tid, w2) = generateTraceID w1
      in (\<lparr> spanName = name, startTime = now, traceID = tid, tags = None,
            spanError = None \<rparr>, w2))"

definition SetTag :: "'v SpanImpl \<Rightarrow> string \<Rightarrow> 'v option \<Rightarrow> 'v SpanImpl" where
  "SetTag s key val =
     (let s1 = (if tags s = None then s\<lparr>tags := Some Map.empty\<rparr> else s)
      in case tags s1 of
           None \<Rightarrow> s1
         | Some m \<Rightarrow> s1\<lparr>tags := Some (m(key \<mapsto> val))\<rparr>)"

definition SetError :: "'v SpanImpl \<Rightarrow> string option \<Rightarrow> 'v SpanImpl" where
  "SetError s err = s\<lparr>spanError := err\<rparr>"

definition End :: "Matcher \<Rightarrow> 'v SpanImpl \<Rightarrow> 'v World \<Rightarrow> 'v World" where
  "End M s w0 =
     (let (after, w1) = timeNow w0;
          duration = after - startTime s;
          (eventID, w2) = generateEventID w1;
          (now, w3) = timeNow w2;
          event = zeroEvent\<lparr> ID := eventID, TraceID := traceID s, Timestamp := now,
                    Type := EventFunctionReturn, Function := spanName s,
                    Duration := duration, Goroutine := getGoroutineID w3 \<rparr>;
          event' = (case spanError s of
                      None \<Rightarrow> event
                    | Some msg \<Rightarrow> event\<lparr> Error := msg, Type := EventError \<rparr>)
      in TraceEvent M event' w3)"

text \<open>The state after calling a function value (unchanged for anything else).\<close>

definition stateAfter :: "'v Object \<Rightarrow> 'v list \<Rightarrow> 'v World \<Rightarrow> 'v World" where
  "stateAfter obj args w = (case invoke obj args w of None \<Rightarrow> w | Some (outcome, w') \<Rightarrow> w')"

section \<open>A concrete program\<close>

text \<open>
  Values for the examples: the untyped nil, integers, booleans, strings, and error values
  by their text.
\<close>

datatype Val = NilVal | IntVal int | BoolVal bool | StringVal string | ErrorVal string

text \<open>
  On a pattern without metacharacters \<^verbatim>\<open>filepath.Match\<close> reports a match exactly when the
  name equals the pattern; the examples use only such patterns.
\<close>

definition exactMatch :: Matcher where
  "exactMatch pattern name = (pattern = name)"

text \<open>The stack of a program whose \<^verbatim>\<open>main\<close> is at line \<open>ln\<close> of its \<^verbatim>\<open>main.go\<close>.\<close>

definition mainAt :: "int \<Rightarrow> Frame list" where
  "mainAt ln =
     [\<lparr> frameFile = ''/home/dev/app/main.go'', frameLine = ln, frameFunc = Some ''main.main'' \<rparr>,
      \<lparr> frameFile = ''/usr/local/go/src/runtime/proc.go'', frameLine = 283,
        frameFunc = Some ''runtime.main'' \<rparr>]"

text \<open>
  A tracer from \<^verbatim>\<open>New(WithWriter(NewConsoleWriter(true)))\<close>, in a program at line 16 of
  \<^verbatim>\<open>main\<close>, with a clock that does not advance during the next fourteen reads
  (a wrapped call reads it seven times).
\<close>

definition world0 :: "Val World" where
  "world0 =
     \<lparr> clock = 1759436509286784000, ticks = [0, 0, 0, 0, 0, 0, 0, 0, 0, 0, 0, 0, 0, 0],
       stack = mainAt 16,
       srcDir = ''/home/dev/go/pkg/mod/github.com/baretech/lens@v0.1.0'',
       numGoroutine = 1,
       tracer = \<lparr> level = LevelInfo, enabled = True, writers = [ConsoleWriter True],
                  filters = [] \<rparr>,
       dispatched = [], written = [] \<rparr>"

text \<open>
  \<^verbatim>\<open>func add(a, b int) int { return a + b }\<close>, which returns within the resolution of the
  clock; \<^verbatim>\<open>slowAdd\<close>, the same after 1200 ns;
  \<^verbatim>\<open>func fail() (interface{}, error) { return nil, errors.New("boom") }\<close>; and
  \<^verbatim>\<open>func crash() { panic("boom") }\<close>.
\<close>

definition add :: "Val FuncValue" where
  "add = \<lparr> call = (\<lambda>args w. case args of
                       [IntVal a, IntVal b] \<Rightarrow> (Returns [IntVal (a + b)], w)
                     | _ \<Rightarrow> (Panics (StringVal ''add: bad arguments''), w)),
           pcName = Some ''main.add'' \<rparr>"


definition fail :: "Val FuncValue" where
  "fail = \<lparr> call = (\<lambda>args w. (Returns [NilVal, ErrorVal ''boom''], w)),
            pcName = Some ''main.fail'' \<rparr>"

definition crash :: "Val FuncValue" where
  "crash = \<lparr> call = (\<lambda>args w. (Panics (StringVal ''boom''), w)),
             pcName = Some ''main.crash'' \<rparr>"

text \<open>
  \<^verbatim>\<open>&Calculator{precision: 2}\<close> with its method
  \<^verbatim>\<open>func (c *Calculator) Add(a, b int) int { return a + b }\<close>.
\<close>

definition calculator :: "Val Object" where
  "calculator = PtrValue False [(''Add'', call add)] (IntVal 2)"

text \<open>What \<^verbatim>\<open>getSourceLocation\<close> resolves for code at line \<open>ln\<close> of that \<^verbatim>\<open>main\<close>.\<close>

definition mainLoc :: "int \<Rightarrow> SourceLocation" where
  "mainLoc ln = \<lparr> File = ''/home/dev/app/main.go'', Line = ln, LocFunction = ''main.main'' \<rparr>"

section \<open>Properties of the clock, the identifiers and dispatch\<close>

lemma timeNow_fst: "fst (timeNow w) = clock w"
  by (simp add: timeNow_def)


lemma timeNow_dispatched: "dispatched (snd (timeNow w)) = dispatched w"
  by (simp add: timeNow_def split: list.splits)

lemma generateEventID_dispatched: "dispatched (snd (generateEventID w)) = dispatched w"
  by (simp add: generateEventID_def split_beta timeNow_dispatched)

lemma generateTraceID_dispatched: "dispatched (snd (generateTraceID w)) = dispatched w"
  by (simp add: generateTraceID_def split_beta timeNow_dispatched)

lemma TraceEvent_dispatched: "dispatched (TraceEvent M e w) = dispatched w @ [e]"
  by (simp add: TraceEvent_def Let_def)


section \<open>Properties of the filters\<close>

lemma anyMatch_iff: "anyMatch M ps s = (\<exists>p\<in>set ps. M p s)"
  by (induction ps) auto

lemma allPass_iff: "allPass M fs e = (\<forall>f\<in>set fs. ShouldTrace M f e)"
  by (induction fs) auto

lemma consulted_eq:
  "consulted M fs e =
     takeWhile (\<lambda>f. ShouldTrace M f e) fs @ take 1 (dropWhile (\<lambda>f. ShouldTrace M f e) fs)"
  by (induction fs) auto

text \<open>
  Claim C7. For every list of sub-filters and every event, the composite filter accepts
  the event exactly when every sub-filter accepts it; and the sub-filters that are
  consulted are those up to and including the first one that rejects, so evaluation stops
  at the first rejection.
\<close>

theorem CompositeFilter_conjunction:
  "ShouldTrace M (CompositeFilter fs) e = (\<forall>f\<in>set fs. ShouldTrace M f e)
   \<and> consulted M fs e =
       takeWhile (\<lambda>f. ShouldTrace M f e) fs @ take 1 (dropWhile (\<lambda>f. ShouldTrace M f e) fs)"
  by (simp add: allPass_iff consulted_eq)

theorem CompositeFilter_conjunction_witness:
  "DurationFilter 10 \<in> set [EventTypeFilter [], DurationFilter 10, UserFilter (\<lambda>e. False)]
   \<and> \<not> ShouldTrace exactMatch
         (CompositeFilter [EventTypeFilter [], DurationFilter 10, UserFilter (\<lambda>e. False)])
         ((zeroEvent :: Val Event)\<lparr>Duration := 5\<rparr>)
   \<and> \<not> (\<forall>f\<in>set [EventTypeFilter [], DurationFilter 10, UserFilter (\<lambda>e. False)].
           ShouldTrace exactMatch f ((zeroEvent :: Val Event)\<lparr>Duration := 5\<rparr>))
   \<and> consulted exactMatch [EventTypeFilter [], DurationFilter 10, UserFilter (\<lambda>e. False)]
         ((zeroEvent :: Val Event)\<lparr>Duration := 5\<rparr>)
       = [EventTypeFilter [], DurationFilter 10]"
  using CompositeFilter_conjunction
          [of exactMatch "[EventTypeFilter [], DurationFilter 10, UserFilter (\<lambda>e. False)]"
              "(zeroEvent :: Val Event)\<lparr>Duration := 5\<rparr>"]
  by simp

text \<open>
  Claim C8. The package filter accepts an event whose component is empty; otherwise it
  rejects when some exclude pattern matches the component; otherwise it accepts when the
  include list is empty; otherwise it accepts exactly when some include pattern matches.
  So with an empty include list and an exclude list that does not match, every event with
  a non-empty component is accepted.
\<close>

theorem PackageFilter_order:
  "ShouldTrace M (PackageFilter inc exc) e =
     (if Component e = [] then True
      else if (\<exists>p\<in>set exc. M p (Component e)) then False
      else if inc = [] then True
      else (\<exists>p\<in>set inc. M p (Component e)))
   \<and> (Component e \<noteq> [] \<and> (\<forall>p\<in>set exc. \<not> M p (Component e))
        \<longrightarrow> ShouldTrace M (PackageFilter [] exc) e)"
  by (simp add: anyMatch_iff Let_def)

theorem PackageFilter_order_witness:
  "Component ((zeroEvent :: Val Event)\<lparr>Component := ''Calculator''\<rparr>) \<noteq> []
   \<and> \<not> exactMatch ''User'' ''Calculator'' \<and> \<not> exactMatch ''Noise'' ''Calculator''
   \<and> ShouldTrace exactMatch (PackageFilter [] [''User'', ''Noise''])
         ((zeroEvent :: Val Event)\<lparr>Component := ''Calculator''\<rparr>)
   \<and> \<not> ShouldTrace exactMatch (PackageFilter [''Calculator''] [''User'', ''Calculator''])
         ((zeroEvent :: Val Event)\<lparr>Component := ''Calculator''\<rparr>)
   \<and> \<not> ShouldTrace exactMatch (PackageFilter [''User''] [])
         ((zeroEvent :: Val Event)\<lparr>Component := ''Calculator''\<rparr>)
   \<and> ShouldTrace exactMatch (PackageFilter [''User''] [''Calculator''])
         (zeroEvent :: Val Event)"
  using PackageFilter_order
          [of exactMatch "[]" "[''User'', ''Noise'']"
              "(zeroEvent :: Val Event)\<lparr>Component := ''Calculator''\<rparr>"]
        PackageFilter_order
          [of exactMatch "[''Calculator'']" "[''User'', ''Calculator'']"
              "(zeroEvent :: Val Event)\<lparr>Component := ''Calculator''\<rparr>"]
        PackageFilter_order
          [of exactMatch "[''User'']" "[]"
              "(zeroEvent :: Val Event)\<lparr>Component := ''Calculator''\<rparr>"]
        PackageFilter_order
          [of exactMatch "[''User'']" "[''Calculator'']" "zeroEvent :: Val Event"]
  by (simp add: exactMatch_def zeroEvent_def)

section \<open>Properties of dispatch\<close>

text \<open>
  Claim C6. The level is stored and never read by dispatch: for two tracers that differ
  only in the level, \<^verbatim>\<open>TraceEvent\<close> takes the same filter decision, records the same event
  and starts the same writes; setting the level before or after a dispatch gives the same
  state, and \<^verbatim>\<open>SetLevel\<close> changes nothing but the level.
\<close>

theorem level_not_consulted:
  "written (TraceEvent M e (w\<lparr>tracer := t\<lparr>level := l1\<rparr>\<rparr>))
     = written (TraceEvent M e (w\<lparr>tracer := t\<lparr>level := l2\<rparr>\<rparr>))
   \<and> dispatched (TraceEvent M e (w\<lparr>tracer := t\<lparr>level := l1\<rparr>\<rparr>))
     = dispatched (TraceEvent M e (w\<lparr>tracer := t\<lparr>level := l2\<rparr>\<rparr>))
   \<and> allPass M (filters (t\<lparr>level := l1\<rparr>)) e = allPass M (filters (t\<lparr>level := l2\<rparr>)) e
   \<and> TraceEvent M e (SetLevel l w) = SetLevel l (TraceEvent M e w)
   \<and> enabled (tracer (SetLevel l w)) = enabled (tracer w)
   \<and> writers (tracer (SetLevel l w)) = writers (tracer w)
   \<and> filters (tracer (SetLevel l w)) = filters (tracer w)
   \<and> level (tracer (SetLevel l w)) = l"
  by (simp add: TraceEvent_def SetLevel_def Let_def)

section \<open>Properties of spans\<close>

lemma End_tags: "End M (s\<lparr>tags := t\<rparr>) w = End M s w"
  by (simp add: End_def)

lemma SetTag_tags: "\<exists>t. SetTag s k v = s\<lparr>tags := t\<rparr>"
  by (cases "tags s") (auto simp add: SetTag_def Let_def)

lemma fold_SetTag_tags: "\<exists>t. fold (\<lambda>(k, v) s. SetTag s k v) kvs s = s\<lparr>tags := t\<rparr>"
proof (induction kvs arbitrary: s)
  case Nil
  have "s = s\<lparr>tags := tags s\<rparr>" by simp
  then show ?case by (metis fold_simps(1))
next
  case (Cons kv kvs)
  obtain k v where kv: "kv = (k, v)" by (cases kv)
  obtain t1 where t1: "SetTag s k v = s\<lparr>tags := t1\<rparr>"
    using SetTag_tags by blast
  obtain t2 where "fold (\<lambda>(k, v) s. SetTag s k v) kvs (s\<lparr>tags := t1\<rparr>) = s\<lparr>tags := t1\<rparr>\<lparr>tags := t2\<rparr>"
    using Cons.IH by blast
  then have "fold (\<lambda>(k, v) s. SetTag s k v) (kv # kvs) s = s\<lparr>tags := t2\<rparr>"
    by (simp add: kv t1)
  then show ?case by blast
qed

text \<open>
  Claim C9. Tags set on a span never reach an event: for every span, key and value, and
  for every sequence of \<^verbatim>\<open>SetTag\<close> calls, \<^verbatim>\<open>End\<close> leaves the same state (the same event
  dispatched, the same writes started) as it does with no \<^verbatim>\<open>SetTag\<close> call at all. The
  \<^verbatim>\<open>Event\<close> record has no field for tags.
\<close>

theorem SetTag_not_observable:
  "End M (SetTag s k v) w = End M s w
   \<and> End M (fold (\<lambda>(k, v) s. SetTag s k v) kvs s) w = End M s w"
proof
  show "End M (SetTag s k v) w = End M s w"
    using SetTag_tags [of s k v] by (auto simp add: End_tags)
  show "End M (fold (\<lambda>(k, v) s. SetTag s k v) kvs s) w = End M s w"
    using fold_SetTag_tags [of kvs s] by (auto simp add: End_tags)
qed

section \<open>Properties of wrapping\<close>

text \<open>
  Claim C10. For every operand whose dynamic type is not a function type (the nil
  interface, pointers, structs, interfaces, slices, maps, channels and the basic kinds)
  and every name, \<^verbatim>\<open>WrapWithName\<close> and \<^verbatim>\<open>Wrap\<close> return the operand itself and leave the
  state as it was, so no event is dispatched and no write is started; the same holds for
  every operand, functions included, when the tracer is disabled.
\<close>

theorem Wrap_passes_through:
  assumes "\<not> isFunc obj \<or> \<not> enabled (tracer w)"
  shows "WrapWithName M obj name w = (obj, w) \<and> Wrap M obj w = (obj, w)"
  using assms
  by (cases obj)
     (auto simp add: WrapWithName_def Wrap_def WrapWithNameFrom_def wrapPointer_def
        wrapStruct_def wrapInterface_def wrapSlice_def wrapMap_def wrapChannel_def)

theorem Wrap_passes_through_witness:
  "\<not> isFunc calculator
   \<and> WrapWithName exactMatch calculator ''Calculator'' world0 = (calculator, world0)
   \<and> Wrap exactMatch calculator world0 = (calculator, world0)
   \<and> \<not> isFunc (SliceValue (IntVal 0))
   \<and> WrapWithName exactMatch (SliceValue (IntVal 0)) ''s'' world0 = (SliceValue (IntVal 0), world0)
   \<and> \<not> enabled (tracer (Disable world0))
   \<and> Wrap exactMatch (FuncObject add) (Disable world0) = (FuncObject add, Disable world0)"
  using Wrap_passes_through [of calculator world0 exactMatch "''Calculator''"]
        Wrap_passes_through [of "SliceValue (IntVal 0)" world0 exactMatch "''s''"]
        Wrap_passes_through [of "FuncObject add" "Disable world0" exactMatch "[]"]
  by (simp add: calculator_def Disable_def)

lemma internal_files:
  "isInternalFile ''/home/dev/go/pkg/mod/github.com/baretech/lens@v0.1.0/lens.go''"
  "isInternalFile ''/home/dev/go/pkg/mod/github.com/baretech/lens@v0.1.0/tracer.go''"
  "\<not> isInternalFile ''/home/dev/app/main.go''"
  by (simp_all add: isInternalFile_def)

lemma Wrap_at_main:
  "Wrap exactMatch (FuncObject f) (world0\<lparr>stack := mainAt n\<rparr>) =
     (FuncObject \<lparr> call = wrapper exactMatch f [] (mainLoc n) (mainLoc n),
                   pcName = Some ''reflect.makeFuncStub'' \<rparr>, world0\<lparr>stack := mainAt n\<rparr>)"
  by (simp add: Wrap_def WrapWithNameFrom_def wrapFunction_def getSourceLocation_def
        getCallerLocation_def lensFrame_def world0_def mainAt_def locationOf_def mainLoc_def
        eval_nat_numeral internal_files)

lemma Wrap_world0:
  "Wrap exactMatch (FuncObject f) world0 =
     (FuncObject \<lparr> call = wrapper exactMatch f [] (mainLoc 16) (mainLoc 16),
                   pcName = Some ''reflect.makeFuncStub'' \<rparr>, world0)"
proof -
  have "world0\<lparr>stack := mainAt 16\<rparr> = world0" by (simp add: world0_def)
  then show ?thesis using Wrap_at_main [of f 16] by simp
qed

lemma stateAfter_wrapper:
  "stateAfter (FuncObject \<lparr> call = wrapper M f name sl cl, pcName = p \<rparr>) args w =
     snd (wrapper M f name sl cl args w)"
  by (simp add: stateAfter_def split_beta)

text \<open>
  Claim C1, at a failing input. With the tracer enabled, \<^verbatim>\<open>WrapWithName\<close> of a non-nil
  pointer to a struct with a method \<^verbatim>\<open>Add\<close> returns the pointer itself, not a proxy: a call
  of \<^verbatim>\<open>Add\<close> on the returned value returns its result and dispatches no event.
\<close>

theorem WrapWithName_returns_pointer_unwrapped:
  "WrapWithName exactMatch calculator ''Calculator'' world0 = (calculator, world0)
   \<and> enabled (tracer world0)
   \<and> map_option (\<lambda>r. (fst r, dispatched (snd r), written (snd r)))
        (callMethod (fst (WrapWithName exactMatch calculator ''Calculator'' world0)) ''Add''
           [IntVal 10, IntVal 20] world0)
       = Some (Returns [IntVal 30], [], [])"
proof -
  have W: "WrapWithName exactMatch calculator ''Calculator'' world0 = (calculator, world0)"
    by (simp add: WrapWithName_def WrapWithNameFrom_def wrapPointer_def calculator_def
          world0_def)
  have "callMethod calculator ''Add'' [IntVal 10, IntVal 20] world0
          = Some (Returns [IntVal 30], world0)"
    by (simp add: callMethod_def calculator_def add_def)
  then show ?thesis
    unfolding W by (simp add: world0_def)
qed

text \<open>
  Claim C5, at a failing input. When the clock does not advance between two reads, two
  successive calls of \<^verbatim>\<open>generateEventID\<close> return the same identifier, and so do two
  successive calls of \<^verbatim>\<open>generateTraceID\<close>.
\<close>

theorem generated_ids_repeat:
  "fst (generateEventID world0) = ''evt_1759436509286784000''
   \<and> fst (generateEventID (snd (generateEventID world0))) = ''evt_1759436509286784000''
   \<and> fst (generateTraceID world0) = ''trace_1759436509286784000''
   \<and> fst (generateTraceID (snd (generateTraceID world0))) = ''trace_1759436509286784000''"
  by (simp add: generateEventID_def generateTraceID_def timeNow_def world0_def formatInt_def
        showNat.simps split_beta)

lemma call_add: "call add [IntVal a, IntVal b] w = (Returns [IntVal (a + b)], w)"
  by (simp add: add_def)


lemma call_fail: "call fail args w = (Returns [NilVal, ErrorVal ''boom''], w)"
  by (simp add: fail_def)

lemma call_crash: "call crash args w = (Panics (StringVal ''boom''), w)"
  by (simp add: crash_def)

subsection \<open>The two halves of the wrapper\<close>

lemma callEventOf_fields:
  "Type (callEventOf i t n c f a g sl cl) = EventFunctionCall"
  "TraceID (callEventOf i t n c f a g sl cl) = t"
  "Component (callEventOf i t n c f a g sl cl) = c"
  "Function (callEventOf i t n c f a g sl cl) = f"
  "Arguments (callEventOf i t n c f a g sl cl) = a"
  "SourceLine (callEventOf i t n c f a g sl cl) = Line sl"
  "CallerLine (callEventOf i t n c f a g sl cl) = Line cl"
  by (simp_all add: callEventOf_def)

lemma returnEventOf_fields:
  "Type (returnEventOf i t n c f r d g sl cl) = EventFunctionReturn"
  "TraceID (returnEventOf i t n c f r d g sl cl) = t"
  "Component (returnEventOf i t n c f r d g sl cl) = c"
  "Function (returnEventOf i t n c f r d g sl cl) = f"
  "ReturnValue (returnEventOf i t n c f r d g sl cl) = r"
  "Duration (returnEventOf i t n c f r d g sl cl) = d"
  "Error (returnEventOf i t n c f r d g sl cl) = []"
  "SourceLine (returnEventOf i t n c f r d g sl cl) = Line sl"
  "CallerLine (returnEventOf i t n c f r d g sl cl) = Line cl"
  by (simp_all add: returnEventOf_def zeroEvent_def)

lemma wrapperEnter_traceID:
  "fst (wrapperEnter M fv name sl cl args w0) = fst (generateTraceID w0)"
  by (simp add: wrapperEnter_def Let_def split_beta)


lemma wrapperEnter_dispatched:
  "\<exists>i n g. dispatched (snd (snd (snd (wrapperEnter M fv name sl cl args w0)))) =
     dispatched w0 @
       [callEventOf i (fst (wrapperEnter M fv name sl cl args w0)) n name
          (fst (snd (wrapperEnter M fv name sl cl args w0))) args g sl cl]"
  by (simp add: wrapperEnter_def Let_def split_beta timeNow_dispatched TraceEvent_dispatched
        generateEventID_dispatched generateTraceID_dispatched)
     (rule exI, rule exI, rule exI, rule refl)


lemma wrapperLeave_dispatched:
  "\<exists>i n g. dispatched (wrapperLeave M name sl cl tid fn start rs w6) =
     dispatched w6 @ [returnEventOf i tid n name fn rs (clock w6 - start) g sl cl]"
  by (simp add: wrapperLeave_def Let_def split_beta timeNow_dispatched TraceEvent_dispatched
        generateEventID_dispatched timeNow_fst)
     (rule exI, rule exI, rule exI, rule refl)

lemma wrapper_Returns:
  assumes "call fv args (snd (snd (snd (wrapperEnter M fv name sl cl args w0)))) = (Returns rs, w6)"
  shows "wrapper M fv name sl cl args w0 =
     (Returns rs,
      wrapperLeave M name sl cl (fst (wrapperEnter M fv name sl cl args w0))
        (fst (snd (wrapperEnter M fv name sl cl args w0)))
        (fst (snd (snd (wrapperEnter M fv name sl cl args w0)))) rs w6)"
  using assms by (simp add: wrapper_def split_beta)

lemma wrapper_Panics:
  assumes "call fv args (snd (snd (snd (wrapperEnter M fv name sl cl args w0)))) = (Panics v, w6)"
  shows "wrapper M fv name sl cl args w0 = (Panics v, w6)"
  using assms by (simp add: wrapper_def split_beta)

subsection \<open>A clock that stands still\<close>







subsection \<open>A wrapped function that returns at once and touches nothing\<close>

lemma wrapper_leaf_dispatched:
  assumes "\<And>w. call fv args w = (Returns rs, w)"
  shows "\<exists>i n g i' n' g' d.
     dispatched (snd (wrapper M fv name sl cl args w0)) =
       dispatched w0 @
         [callEventOf i (fst (generateTraceID w0)) n name
            (fst (snd (wrapperEnter M fv name sl cl args w0))) args g sl cl,
          returnEventOf i' (fst (generateTraceID w0)) n' name
            (fst (snd (wrapperEnter M fv name sl cl args w0))) rs d g' sl cl]"
proof -
  obtain i n g where enter:
    "dispatched (snd (snd (snd (wrapperEnter M fv name sl cl args w0)))) =
       dispatched w0 @
         [callEventOf i (fst (wrapperEnter M fv name sl cl args w0)) n name
            (fst (snd (wrapperEnter M fv name sl cl args w0))) args g sl cl]"
    using wrapperEnter_dispatched by blast
  obtain i' n' g' where leave:
    "dispatched (wrapperLeave M name sl cl (fst (wrapperEnter M fv name sl cl args w0))
        (fst (snd (wrapperEnter M fv name sl cl args w0)))
        (fst (snd (snd (wrapperEnter M fv name sl cl args w0)))) rs
        (snd (snd (snd (wrapperEnter M fv name sl cl args w0))))) =
       dispatched (snd (snd (snd (wrapperEnter M fv name sl cl args w0)))) @
         [returnEventOf i' (fst (wrapperEnter M fv name sl cl args w0)) n' name
            (fst (snd (wrapperEnter M fv name sl cl args w0))) rs
            (clock (snd (snd (snd (wrapperEnter M fv name sl cl args w0))))
               - fst (snd (snd (wrapperEnter M fv name sl cl args w0)))) g' sl cl]"
    using wrapperLeave_dispatched by blast
  have "dispatched (snd (wrapper M fv name sl cl args w0)) =
       dispatched w0 @
         [callEventOf i (fst (generateTraceID w0)) n name
            (fst (snd (wrapperEnter M fv name sl cl args w0))) args g sl cl,
          returnEventOf i' (fst (generateTraceID w0)) n' name
            (fst (snd (wrapperEnter M fv name sl cl args w0))) rs
            (clock (snd (snd (snd (wrapperEnter M fv name sl cl args w0))))
               - fst (snd (snd (wrapperEnter M fv name sl cl args w0)))) g' sl cl]"
    by (simp add: wrapper_Returns [OF assms] enter [unfolded wrapperEnter_traceID]
          leave [unfolded wrapperEnter_traceID] wrapperEnter_traceID)
  then show ?thesis by blast
qed


text \<open>
  Claim C2, at a failing input. A function wrapped at line 16 of \<^verbatim>\<open>main\<close> and then called
  from line 20, and again from line 35, records line 16 as the source and caller line of
  the call and return events of both calls: the locations are those resolved when the
  function was wrapped.
\<close>

theorem wrapFunction_location_from_wrap_time:
  "map SourceLine (dispatched (stateAfter (fst (Wrap exactMatch (FuncObject add) world0))
       [IntVal 2, IntVal 3] (world0\<lparr>stack := mainAt 20\<rparr>))) = [16, 16]
   \<and> map CallerLine (dispatched (stateAfter (fst (Wrap exactMatch (FuncObject add) world0))
       [IntVal 2, IntVal 3] (world0\<lparr>stack := mainAt 20\<rparr>))) = [16, 16]
   \<and> map SourceLine (dispatched (stateAfter (fst (Wrap exactMatch (FuncObject add) world0))
       [IntVal 2, IntVal 3] (world0\<lparr>stack := mainAt 35\<rparr>))) = [16, 16]
   \<and> map CallerLine (dispatched (stateAfter (fst (Wrap exactMatch (FuncObject add) world0))
       [IntVal 2, IntVal 3] (world0\<lparr>stack := mainAt 35\<rparr>))) = [16, 16]"
proof -
  have d: "dispatched (world0\<lparr>stack := st\<rparr>) = []" for st
    by (simp add: world0_def)
  have "map SourceLine (dispatched (snd (wrapper exactMatch add [] (mainLoc 16) (mainLoc 16)
            [IntVal 2, IntVal 3] (world0\<lparr>stack := st\<rparr>)))) = [16, 16]
        \<and> map CallerLine (dispatched (snd (wrapper exactMatch add [] (mainLoc 16) (mainLoc 16)
            [IntVal 2, IntVal 3] (world0\<lparr>stack := st\<rparr>)))) = [16, 16]" for st
    using wrapper_leaf_dispatched
            [of add "[IntVal 2, IntVal 3]" "[IntVal 5]" exactMatch "[]" "mainLoc 16" "mainLoc 16"
                "world0\<lparr>stack := st\<rparr>"]
    by (auto simp add: call_add d callEventOf_fields returnEventOf_fields mainLoc_def)
  then show ?thesis
    by (simp add: Wrap_world0 stateAfter_wrapper)
qed

text \<open>
  The claim C3 fails: a wrapped function that returns an error is followed by a call event
  and a return event, and a wrapped function that panics by a call event only. No event of
  kind \<^verbatim>\<open>error\<close> is dispatched in either case.
\<close>

theorem wrapper_failure_no_error_event:
  "map Type (dispatched (stateAfter (fst (Wrap exactMatch (FuncObject fail) world0)) [] world0))
     = [''function_call'', ''function_return'']
   \<and> map Type (dispatched (stateAfter (fst (Wrap exactMatch (FuncObject crash) world0)) [] world0))
     = [''function_call'']
   \<and> EventError = ''error''"
proof -
  have d: "dispatched world0 = []"
    by (simp add: world0_def)
  have 1: "map Type (dispatched (snd (wrapper exactMatch fail [] (mainLoc 16) (mainLoc 16) [] world0)))
        = [EventFunctionCall, EventFunctionReturn]"
    using wrapper_leaf_dispatched
            [of fail "[]" "[NilVal, ErrorVal ''boom'']" exactMatch "[]" "mainLoc 16" "mainLoc 16" world0]
    by (auto simp add: call_fail d callEventOf_fields returnEventOf_fields)
  have "snd (wrapper exactMatch crash [] (mainLoc 16) (mainLoc 16) [] world0) =
          snd (snd (snd (wrapperEnter exactMatch crash [] (mainLoc 16) (mainLoc 16) [] world0)))"
    by (simp add: wrapper_Panics [OF call_crash])
  then have 2: "map Type (dispatched (snd (wrapper exactMatch crash [] (mainLoc 16) (mainLoc 16) [] world0)))
        = [EventFunctionCall]"
    using wrapperEnter_dispatched [of exactMatch crash "[]" "mainLoc 16" "mainLoc 16" "[]" world0]
    by (auto simp add: d callEventOf_fields)
  show ?thesis
    using 1 2
    by (simp add: Wrap_world0 stateAfter_wrapper EventError_def EventFunctionCall_def
          EventFunctionReturn_def)
qed


text \<open>
  Claim C3, amended. The wrapper is transparent to failure and has no event of its own for
  it. Let the wrapper reach the original in the state \<open>w5\<close>, with the trace id \<open>tid\<close>, and
  let the original end there in \<open>outcome\<close> (its results, an error value among them or not,
  or a panic). Then the caller of the wrapper observes exactly \<open>outcome\<close>; exactly one call
  event, carrying \<open>tid\<close> and the arguments, was dispatched before the original ran; when
  the original returns, exactly one event is dispatched after it, of kind
  \<^verbatim>\<open>function_return\<close>, carrying \<open>tid\<close>, the results and no error text; when the original
  panics, the wrapper does nothing after it.
\<close>

theorem wrapper_transparent_to_failure:
  assumes "wrapperEnter M fv name sl cl args w0 = (tid, fn, start, w5)"
    and "call fv args w5 = (outcome, w6)"
  shows "fst (wrapper M fv name sl cl args w0) = outcome
     \<and> (\<exists>ce. dispatched w5 = dispatched w0 @ [ce] \<and> Type ce = EventFunctionCall
            \<and> TraceID ce = tid \<and> Arguments ce = args)
     \<and> (case outcome of
           Panics v \<Rightarrow> snd (wrapper M fv name sl cl args w0) = w6
         | Returns rs \<Rightarrow>
             (\<exists>re. dispatched (snd (wrapper M fv name sl cl args w0)) = dispatched w6 @ [re]
                \<and> Type re = EventFunctionReturn \<and> Type re \<noteq> EventError
                \<and> TraceID re = tid \<and> ReturnValue re = rs \<and> Error re = []))"
proof -
  have tid: "tid = fst (wrapperEnter M fv name sl cl args w0)"
    and fn: "fn = fst (snd (wrapperEnter M fv name sl cl args w0))"
    and start: "start = fst (snd (snd (wrapperEnter M fv name sl cl args w0)))"
    and w5: "w5 = snd (snd (snd (wrapperEnter M fv name sl cl args w0)))"
    using assms(1) by simp_all
  have c: "call fv args (snd (snd (snd (wrapperEnter M fv name sl cl args w0)))) = (outcome, w6)"
    using assms(2) by (simp add: w5)
  have ne: "EventFunctionReturn \<noteq> EventError"
    by (simp add: EventFunctionReturn_def EventError_def)
  have 1: "fst (wrapper M fv name sl cl args w0) = outcome"
    by (cases outcome) (simp_all add: wrapper_def split_beta c)
  have 2: "\<exists>ce. dispatched w5 = dispatched w0 @ [ce] \<and> Type ce = EventFunctionCall
            \<and> TraceID ce = tid \<and> Arguments ce = args"
    using wrapperEnter_dispatched [of M fv name sl cl args w0]
    unfolding w5 tid by (metis callEventOf_fields(1,2,5))
  have 3: "case outcome of
           Panics v \<Rightarrow> snd (wrapper M fv name sl cl args w0) = w6
         | Returns rs \<Rightarrow>
             (\<exists>re. dispatched (snd (wrapper M fv name sl cl args w0)) = dispatched w6 @ [re]
                \<and> Type re = EventFunctionReturn \<and> Type re \<noteq> EventError
                \<and> TraceID re = tid \<and> ReturnValue re = rs \<and> Error re = [])"
  proof (cases outcome)
    case (Panics v)
    then show ?thesis
      using wrapper_Panics [of fv args M name sl cl w0 v w6] c by simp
  next
    case (Returns rs)
    have "wrapper M fv name sl cl args w0 =
            (Returns rs, wrapperLeave M name sl cl tid fn start rs w6)"
      using wrapper_Returns [of fv args M name sl cl w0 rs w6] c Returns
      by (simp add: tid fn start)
    moreover obtain i n g where
      "dispatched (wrapperLeave M name sl cl tid fn start rs w6) =
         dispatched w6 @ [returnEventOf i tid n name fn rs (clock w6 - start) g sl cl]"
      using wrapperLeave_dispatched by blast
    ultimately have "\<exists>re. dispatched (snd (wrapper M fv name sl cl args w0)) = dispatched w6 @ [re]
                \<and> Type re = EventFunctionReturn \<and> Type re \<noteq> EventError
                \<and> TraceID re = tid \<and> ReturnValue re = rs \<and> Error re = []"
      using ne by (simp add: returnEventOf_fields)
    then show ?thesis
      using Returns by simp
  qed
  show ?thesis
    using 1 2 3 by blast
qed

theorem wrapper_transparent_to_failure_witness:
  "call fail []
       (snd (snd (snd (wrapperEnter exactMatch fail [] (mainLoc 16) (mainLoc 16) [] world0))))
     = (Returns [NilVal, ErrorVal ''boom''],
        snd (snd (snd (wrapperEnter exactMatch fail [] (mainLoc 16) (mainLoc 16) [] world0))))
   \<and> fst (wrapper exactMatch fail [] (mainLoc 16) (mainLoc 16) [] world0)
       = Returns [NilVal, ErrorVal ''boom'']
   \<and> (\<exists>re. dispatched (snd (wrapper exactMatch fail [] (mainLoc 16) (mainLoc 16) [] world0))
             = dispatched
                 (snd (snd (snd (wrapperEnter exactMatch fail [] (mainLoc 16) (mainLoc 16) []
                    world0)))) @ [re]
           \<and> Type re = EventFunctionReturn
           \<and> TraceID re = fst (wrapperEnter exactMatch fail [] (mainLoc 16) (mainLoc 16) [] world0)
           \<and> ReturnValue re = [NilVal, ErrorVal ''boom''])
   \<and> call crash []
       (snd (snd (snd (wrapperEnter exactMatch crash [] (mainLoc 16) (mainLoc 16) [] world0))))
     = (Panics (StringVal ''boom''),
        snd (snd (snd (wrapperEnter exactMatch crash [] (mainLoc 16) (mainLoc 16) [] world0))))
   \<and> wrapper exactMatch crash [] (mainLoc 16) (mainLoc 16) [] world0
       = (Panics (StringVal ''boom''),
          snd (snd (snd (wrapperEnter exactMatch crash [] (mainLoc 16) (mainLoc 16) [] world0))))"
proof -
  have e1: "wrapperEnter exactMatch fail [] (mainLoc 16) (mainLoc 16) [] world0 =
     (fst (wrapperEnter exactMatch fail [] (mainLoc 16) (mainLoc 16) [] world0),
      fst (snd (wrapperEnter exactMatch fail [] (mainLoc 16) (mainLoc 16) [] world0)),
      fst (snd (snd (wrapperEnter exactMatch fail [] (mainLoc 16) (mainLoc 16) [] world0))),
      snd (snd (snd (wrapperEnter exactMatch fail [] (mainLoc 16) (mainLoc 16) [] world0))))"
    by simp
  have e2: "wrapperEnter exactMatch crash [] (mainLoc 16) (mainLoc 16) [] world0 =
     (fst (wrapperEnter exactMatch crash [] (mainLoc 16) (mainLoc 16) [] world0),
      fst (snd (wrapperEnter exactMatch crash [] (mainLoc 16) (mainLoc 16) [] world0)),
      fst (snd (snd (wrapperEnter exactMatch crash [] (mainLoc 16) (mainLoc 16) [] world0))),
      snd (snd (snd (wrapperEnter exactMatch crash [] (mainLoc 16) (mainLoc 16) [] world0))))"
    by simp
  show ?thesis
    using wrapper_transparent_to_failure [OF e1 call_fail]
          wrapper_transparent_to_failure [OF e2 call_crash]
    by (auto simp add: call_fail call_crash prod_eq_iff)
qed



end
